theory Spec2Isabelle
  imports Complex_Main "HOL-Library.Word" "HOL-Library.AList"
begin

unbundle bit_operations_syntax

section \<open>Machine model\<close>

text \<open>
  The allocators are modelled for the LP64 target of the native build: \<open>size_t\<close> and
  pointers are 64-bit words whose arithmetic wraps, \<open>nullptr\<close> is the address 0, and
  \<open>alignof(std::max_align_t)\<close> is 16. The bytes behind a pointer are an explicit store
  from addresses to bytes; an 8-byte field is read and written little-endian, so that
  overlapping accesses alias as they do on the machine. Time samples (\<open>double\<close>) are
  carried as reals; no property of the allocators depends on their rounding.
\<close>

type_synonym size_t = "64 word"
type_synonym addr = "64 word"
type_synonym memory = "addr \<Rightarrow> 8 word"

definition zero_memory :: memory where
  "zero_memory = (\<lambda>_. 0)"

definition max_align :: size_t where
  "max_align = 16"

definition load64 :: "memory \<Rightarrow> addr \<Rightarrow> 64 word" where
  "load64 h a =
     ucast (h a)
     OR push_bit 8 (ucast (h (a + 1)))
     OR push_bit 16 (ucast (h (a + 2)))
     OR push_bit 24 (ucast (h (a + 3)))
     OR push_bit 32 (ucast (h (a + 4)))
     OR push_bit 40 (ucast (h (a + 5)))
     OR push_bit 48 (ucast (h (a + 6)))
     OR push_bit 56 (ucast (h (a + 7)))"

definition store64 :: "memory \<Rightarrow> addr \<Rightarrow> 64 word \<Rightarrow> memory" where
  "store64 h a v =
     (\<lambda>x. if x - a < 8 then ucast (drop_bit (8 * unat (x - a)) v) else h x)"

section \<open>BaseAllocator\<close>

record AllocationStats =
  total_allocations :: size_t
  total_deallocations :: size_t
  current_allocations :: size_t
  total_bytes_allocated :: size_t
  current_bytes_used :: size_t
  peak_bytes_used :: size_t
  fragmentation_bytes :: size_t
  avg_allocation_time_ns :: real
  avg_dealloc_time_ns :: real

definition AllocationStats_init :: AllocationStats where
  "AllocationStats_init =
     \<lparr>total_allocations = 0, total_deallocations = 0, current_allocations = 0,
      total_bytes_allocated = 0, current_bytes_used = 0, peak_bytes_used = 0,
      fragmentation_bytes = 0, avg_allocation_time_ns = 0, avg_dealloc_time_ns = 0\<rparr>"

record AllocationInfo =
  address :: addr
  info_size :: size_t
  alignment :: size_t
  timestamp :: "64 word"
  is_active :: bool

record BaseAllocator =
  m_name :: string
  m_total_size :: size_t
  m_stats :: AllocationStats
  m_allocation_history :: "AllocationInfo list"

definition record_allocation ::
  "addr \<Rightarrow> size_t \<Rightarrow> size_t \<Rightarrow> real \<Rightarrow> 'a BaseAllocator_scheme \<Rightarrow> 'a BaseAllocator_scheme" where
  "record_allocation ptr sz al time_ns b =
     (let s0 = m_stats b;
          s1 = s0\<lparr>total_allocations := total_allocations s0 + 1,
                  current_allocations := current_allocations s0 + 1,
                  total_bytes_allocated := total_bytes_allocated s0 + sz,
                  current_bytes_used := current_bytes_used s0 + sz\<rparr>;
          s2 = (if current_bytes_used s1 > peak_bytes_used s1
                then s1\<lparr>peak_bytes_used := current_bytes_used s1\<rparr> else s1);
          total_time = avg_allocation_time_ns s2 * real (unat (total_allocations s2 - 1));
          s3 = s2\<lparr>avg_allocation_time_ns :=
                    (total_time + time_ns) / real (unat (total_allocations s2))\<rparr>;
          info = \<lparr>address = ptr, info_size = sz, alignment = al, timestamp = 0,
                  is_active = True\<rparr>
      in b\<lparr>m_stats := s3, m_allocation_history := m_allocation_history b @ [info]\<rparr>)"

definition record_deallocation ::
  "size_t \<Rightarrow> real \<Rightarrow> 'a BaseAllocator_scheme \<Rightarrow> 'a BaseAllocator_scheme" where
  "record_deallocation sz time_ns b =
     (let s0 = m_stats b;
          s1 = s0\<lparr>total_deallocations := total_deallocations s0 + 1,
                  current_allocations := current_allocations s0 - 1,
                  current_bytes_used := current_bytes_used s0 - sz\<rparr>;
          total_time = avg_dealloc_time_ns s1 * real (unat (total_deallocations s1 - 1));
          s2 = s1\<lparr>avg_dealloc_time_ns :=
                    (total_time + time_ns) / real (unat (total_deallocations s1))\<rparr>
      in b\<lparr>m_stats := s2\<rparr>)"

definition align_size :: "size_t \<Rightarrow> size_t \<Rightarrow> size_t" where
  "align_size sz al = (sz + al - 1) AND NOT (al - 1)"

definition is_power_of_two :: "size_t \<Rightarrow> bool" where
  "is_power_of_two al = (al > 0 \<and> al AND (al - 1) = 0)"

section \<open>StackAllocator\<close>

text \<open>
  The header \<open>{size, adjustment, previous_offset}\<close> is three \<open>size_t\<close> fields, at byte
  offsets 0, 8 and 16 of the header; \<open>sizeof(AllocationHeader) = 24\<close>. The field
  \<open>stk_heap\<close> is the content of memory as the allocator reads and writes it.
\<close>

record StackAllocator = BaseAllocator +
  stk_alignment :: size_t
  stk_memory :: addr
  m_current_offset :: size_t
  m_previous_offset :: size_t
  stk_heap :: memory

definition stk_header_size :: size_t where
  "stk_header_size = 24"

text \<open>The constructor; \<open>mem\<close> is what \<open>aligned_alloc\<close> returned (0 when it failed).\<close>

definition StackAllocator_init :: "size_t \<Rightarrow> size_t \<Rightarrow> addr \<Rightarrow> memory \<Rightarrow> StackAllocator" where
  "StackAllocator_init sz al mem h =
     \<lparr>m_name = ''Stack Allocator'', m_total_size = sz, m_stats = AllocationStats_init,
      m_allocation_history = [], stk_alignment = al, stk_memory = mem,
      m_current_offset = 0, m_previous_offset = 0, stk_heap = h\<rparr>"

definition StackAllocator_allocate ::
  "size_t \<Rightarrow> size_t \<Rightarrow> real \<Rightarrow> StackAllocator \<Rightarrow> addr \<times> StackAllocator" where
  "StackAllocator_allocate sz al time_ns st =
     (if stk_memory st = 0 \<or> sz = 0 then (0, st)
      else
        let current_addr = stk_memory st + m_current_offset st;
            aligned_addr = align_size current_addr al;
            adjustment = aligned_addr - current_addr;
            total_size = adjustment + stk_header_size + sz
        in if m_current_offset st + total_size > m_total_size st then (0, st)
           else
             let header_offset = m_current_offset st + adjustment;
                 header = stk_memory st + header_offset;
                 h1 = store64 (stk_heap st) header sz;
                 h2 = store64 h1 (header + 8) adjustment;
                 h3 = store64 h2 (header + 16) (m_previous_offset st);
                 st1 = st\<lparr>m_previous_offset := m_current_offset st,
                          m_current_offset := header_offset + stk_header_size + sz,
                          stk_heap := h3\<rparr>;
                 ptr = header + stk_header_size
             in (ptr, record_allocation ptr sz al time_ns st1))"

definition StackAllocator_deallocate :: "addr \<Rightarrow> real \<Rightarrow> StackAllocator \<Rightarrow> StackAllocator" where
  "StackAllocator_deallocate ptr time_ns st =
     (if ptr = 0 \<or> stk_memory st = 0 then st
      else
        let header = ptr - stk_header_size;
            expected_offset = ptr - stk_memory st + load64 (stk_heap st) header
        in if expected_offset \<noteq> m_current_offset st then st
           else
             let sz = load64 (stk_heap st) header;
                 cur = m_previous_offset st;
                 prev = (if cur > 0 then load64 (stk_heap st) (header + 16) else 0);
                 st1 = st\<lparr>m_current_offset := cur, m_previous_offset := prev\<rparr>
             in record_deallocation sz time_ns st1)"

definition get_marker :: "StackAllocator \<Rightarrow> size_t" where
  "get_marker st = m_current_offset st"

definition rollback_to_marker :: "size_t \<Rightarrow> StackAllocator \<Rightarrow> StackAllocator" where
  "rollback_to_marker marker st =
     (if marker > m_current_offset st then st
      else
        let freed = m_current_offset st - marker;
            st1 = st\<lparr>m_current_offset := marker, m_previous_offset := 0\<rparr>
        in if freed > 0
           then st1\<lparr>m_stats := (m_stats st1)\<lparr>current_bytes_used := marker\<rparr>\<rparr>
           else st1)"

definition StackAllocator_reset :: "StackAllocator \<Rightarrow> StackAllocator" where
  "StackAllocator_reset st =
     st\<lparr>m_current_offset := 0, m_previous_offset := 0, m_stats := AllocationStats_init,
        m_allocation_history := []\<rparr>"

definition StackAllocator_owns :: "StackAllocator \<Rightarrow> addr \<Rightarrow> bool" where
  "StackAllocator_owns st ptr =
     (if stk_memory st = 0 \<or> ptr = 0 then False
      else ptr \<ge> stk_memory st \<and> ptr < stk_memory st + m_total_size st)"

definition StackAllocator_available :: "StackAllocator \<Rightarrow> size_t" where
  "StackAllocator_available st = m_total_size st - m_current_offset st"

definition StackAllocator_used :: "StackAllocator \<Rightarrow> size_t" where
  "StackAllocator_used st = m_current_offset st"

section \<open>PoolAllocator\<close>

text \<open>
  A free block holds one pointer, \<open>FreeBlock::next\<close>, at offset 0. The loop of
  \<open>initialize_free_list\<close> counts \<open>i\<close> down from \<open>m_block_count\<close> to 1 and threads
  block \<open>i - 1\<close> in front of the list.
\<close>

record PoolAllocator = BaseAllocator +
  m_block_size :: size_t
  m_block_count :: size_t
  pool_alignment :: size_t
  pool_memory :: addr
  pool_free_list :: addr
  m_allocated_blocks :: size_t
  pool_heap :: memory

fun initialize_free_list_loop :: "nat \<Rightarrow> addr \<Rightarrow> size_t \<Rightarrow> memory \<times> addr \<Rightarrow> memory \<times> addr" where
  "initialize_free_list_loop 0 mem bs (h, fl) = (h, fl)"
| "initialize_free_list_loop (Suc i) mem bs (h, fl) =
     (let block = mem + word_of_nat i * bs
      in initialize_free_list_loop i mem bs (store64 h block fl, block))"

definition initialize_free_list :: "PoolAllocator \<Rightarrow> PoolAllocator" where
  "initialize_free_list st =
     (let r = initialize_free_list_loop (unat (m_block_count st)) (pool_memory st)
                (m_block_size st) (pool_heap st, 0)
      in st\<lparr>pool_free_list := snd r, pool_heap := fst r\<rparr>)"

text \<open>The constructor; \<open>mem\<close> is what \<open>aligned_alloc\<close> returned (0 when it failed).\<close>

definition PoolAllocator_init ::
  "size_t \<Rightarrow> size_t \<Rightarrow> size_t \<Rightarrow> addr \<Rightarrow> memory \<Rightarrow> PoolAllocator" where
  "PoolAllocator_init block_size block_count al mem h =
     (let bs = align_size block_size al;
          st = \<lparr>m_name = ''Pool Allocator'', m_total_size = bs * block_count,
                m_stats = AllocationStats_init, m_allocation_history = [],
                m_block_size = bs, m_block_count = block_count, pool_alignment = al,
                pool_memory = mem, pool_free_list = 0, m_allocated_blocks = 0,
                pool_heap = h\<rparr>
      in if mem \<noteq> 0 then initialize_free_list st else st)"

definition PoolAllocator_allocate ::
  "size_t \<Rightarrow> size_t \<Rightarrow> real \<Rightarrow> PoolAllocator \<Rightarrow> addr \<times> PoolAllocator" where
  "PoolAllocator_allocate sz al time_ns st =
     (if pool_memory st = 0 \<or> pool_free_list st = 0 \<or> sz > m_block_size st then (0, st)
      else
        let block = pool_free_list st;
            st1 = st\<lparr>pool_free_list := load64 (pool_heap st) block,
                     m_allocated_blocks := m_allocated_blocks st + 1\<rparr>
        in (block, record_allocation block (m_block_size st) (pool_alignment st) time_ns st1))"

definition PoolAllocator_owns :: "PoolAllocator \<Rightarrow> addr \<Rightarrow> bool" where
  "PoolAllocator_owns st ptr =
     (if pool_memory st = 0 \<or> ptr = 0 then False
      else ptr \<ge> pool_memory st \<and> ptr < pool_memory st + m_total_size st)"

definition PoolAllocator_deallocate :: "addr \<Rightarrow> real \<Rightarrow> PoolAllocator \<Rightarrow> PoolAllocator" where
  "PoolAllocator_deallocate ptr time_ns st =
     (if ptr = 0 \<or> \<not> PoolAllocator_owns st ptr then st
      else
        let st1 = st\<lparr>pool_heap := store64 (pool_heap st) ptr (pool_free_list st),
                     pool_free_list := ptr,
                     m_allocated_blocks := m_allocated_blocks st - 1\<rparr>
        in record_deallocation (m_block_size st) time_ns st1)"

definition PoolAllocator_reset :: "PoolAllocator \<Rightarrow> PoolAllocator" where
  "PoolAllocator_reset st =
     (let st1 = (if pool_memory st \<noteq> 0 then initialize_free_list st else st)
      in st1\<lparr>m_allocated_blocks := 0, m_stats := AllocationStats_init,
              m_allocation_history := []\<rparr>)"

definition free_blocks :: "PoolAllocator \<Rightarrow> size_t" where
  "free_blocks st = m_block_count st - m_allocated_blocks st"

definition PoolAllocator_available :: "PoolAllocator \<Rightarrow> size_t" where
  "PoolAllocator_available st = free_blocks st * m_block_size st"

section \<open>FreeListAllocator\<close>

text \<open>
  A free block is \<open>{size, next}\<close> and an allocated block starts with the header
  \<open>{size, adjustment}\<close>: two 8-byte fields each, at offsets 0 and 8, so both structures
  are 16 bytes and share their place when a block changes hands. The loops that follow
  \<open>next\<close> pointers through memory end only if the list does; a walk that never returns
  is the value \<open>None\<close>.
\<close>

datatype FitPolicy = FIRST_FIT | BEST_FIT | WORST_FIT

record FreeListAllocator = BaseAllocator +
  m_policy :: FitPolicy
  fl_memory :: addr
  fl_free_list :: addr
  fl_heap :: memory

definition MIN_BLOCK_SIZE :: size_t where
  "MIN_BLOCK_SIZE = 16"

definition sizeof_FreeBlock :: size_t where
  "sizeof_FreeBlock = 16"

definition fl_header_size :: size_t where
  "fl_header_size = 16"

definition FreeListAllocator_init :: "size_t \<Rightarrow> FitPolicy \<Rightarrow> addr \<Rightarrow> memory \<Rightarrow> FreeListAllocator" where
  "FreeListAllocator_init sz policy mem h =
     (let st = \<lparr>m_name = ''Free List Allocator'', m_total_size = sz,
                m_stats = AllocationStats_init, m_allocation_history = [],
                m_policy = policy, fl_memory = mem, fl_free_list = 0, fl_heap = h\<rparr>
      in if mem \<noteq> 0
         then st\<lparr>fl_free_list := mem, fl_heap := store64 (store64 h mem sz) (mem + 8) 0\<rparr>
         else st)"

partial_function (option) find_first_fit ::
  "memory \<Rightarrow> size_t \<Rightarrow> addr \<Rightarrow> addr \<Rightarrow> (addr \<times> addr) option" where
  "find_first_fit h sz current prev =
     (if current = 0 then Some (0, 0)
      else if load64 h current \<ge> sz then Some (current, prev)
      else find_first_fit h sz (load64 h (current + 8)) current)"

declare find_first_fit.simps [code]

partial_function (option) find_best_fit ::
  "memory \<Rightarrow> size_t \<Rightarrow> addr \<Rightarrow> addr \<Rightarrow> addr \<Rightarrow> addr \<Rightarrow> size_t \<Rightarrow> (addr \<times> addr) option" where
  "find_best_fit h sz current prev best best_prev best_size =
     (if current = 0 then Some (best, best_prev)
      else if load64 h current \<ge> sz \<and> load64 h current < best_size
      then find_best_fit h sz (load64 h (current + 8)) current current prev (load64 h current)
      else find_best_fit h sz (load64 h (current + 8)) current best best_prev best_size)"

declare find_best_fit.simps [code]

partial_function (option) find_worst_fit ::
  "memory \<Rightarrow> size_t \<Rightarrow> addr \<Rightarrow> addr \<Rightarrow> addr \<Rightarrow> addr \<Rightarrow> size_t \<Rightarrow> (addr \<times> addr) option" where
  "find_worst_fit h sz current prev worst worst_prev worst_size =
     (if current = 0 then Some (worst, worst_prev)
      else if load64 h current \<ge> sz \<and> load64 h current > worst_size
      then find_worst_fit h sz (load64 h (current + 8)) current current prev (load64 h current)
      else find_worst_fit h sz (load64 h (current + 8)) current worst worst_prev worst_size)"

declare find_worst_fit.simps [code]

definition find_block :: "FreeListAllocator \<Rightarrow> size_t \<Rightarrow> (addr \<times> addr) option" where
  "find_block st sz =
     (case m_policy st of
        FIRST_FIT \<Rightarrow> find_first_fit (fl_heap st) sz (fl_free_list st) 0
      | BEST_FIT \<Rightarrow> find_best_fit (fl_heap st) sz (fl_free_list st) 0 0 0 (- 1)
      | WORST_FIT \<Rightarrow> find_worst_fit (fl_heap st) sz (fl_free_list st) 0 0 0 0)"

partial_function (option) available_loop :: "memory \<Rightarrow> addr \<Rightarrow> size_t \<Rightarrow> size_t option" where
  "available_loop h current tot =
     (if current = 0 then Some tot
      else available_loop h (load64 h (current + 8)) (tot + load64 h current))"

declare available_loop.simps [code]

definition FreeListAllocator_available :: "FreeListAllocator \<Rightarrow> size_t option" where
  "FreeListAllocator_available st = available_loop (fl_heap st) (fl_free_list st) 0"

partial_function (option) free_block_count_loop :: "memory \<Rightarrow> addr \<Rightarrow> size_t \<Rightarrow> size_t option" where
  "free_block_count_loop h current count =
     (if current = 0 then Some count
      else free_block_count_loop h (load64 h (current + 8)) (count + 1))"

declare free_block_count_loop.simps [code]

definition free_block_count :: "FreeListAllocator \<Rightarrow> size_t option" where
  "free_block_count st = free_block_count_loop (fl_heap st) (fl_free_list st) 0"

partial_function (option) largest_free_block_loop :: "memory \<Rightarrow> addr \<Rightarrow> size_t \<Rightarrow> size_t option" where
  "largest_free_block_loop h current largest =
     (if current = 0 then Some largest
      else largest_free_block_loop h (load64 h (current + 8))
             (if load64 h current > largest then load64 h current else largest))"

declare largest_free_block_loop.simps [code]

definition largest_free_block :: "FreeListAllocator \<Rightarrow> size_t option" where
  "largest_free_block st = largest_free_block_loop (fl_heap st) (fl_free_list st) 0"

definition update_fragmentation :: "FreeListAllocator \<Rightarrow> FreeListAllocator option" where
  "update_fragmentation st =
     (case FreeListAllocator_available st of
        None \<Rightarrow> None
      | Some free_memory \<Rightarrow>
          (case largest_free_block st of
             None \<Rightarrow> None
           | Some largest \<Rightarrow>
               Some (st\<lparr>m_stats := (m_stats st)\<lparr>fragmentation_bytes :=
                       (if free_memory > 0 \<and> largest < free_memory
                        then free_memory - largest else 0)\<rparr>\<rparr>)))"

text \<open>The search of \<open>insert_free_block\<close> for the node after which the block goes.\<close>

partial_function (option) insert_position :: "memory \<Rightarrow> addr \<Rightarrow> addr \<Rightarrow> addr option" where
  "insert_position h block current =
     (if load64 h (current + 8) \<noteq> 0 \<and> load64 h (current + 8) < block
      then insert_position h block (load64 h (current + 8))
      else Some current)"

declare insert_position.simps [code]

definition insert_free_block :: "addr \<Rightarrow> FreeListAllocator \<Rightarrow> FreeListAllocator option" where
  "insert_free_block block st =
     (if fl_free_list st = 0 \<or> block < fl_free_list st
      then Some (st\<lparr>fl_heap := store64 (fl_heap st) (block + 8) (fl_free_list st),
                    fl_free_list := block\<rparr>)
      else
        (case insert_position (fl_heap st) block (fl_free_list st) of
           None \<Rightarrow> None
         | Some current \<Rightarrow>
             let h1 = store64 (fl_heap st) (block + 8) (load64 (fl_heap st) (current + 8));
                 h2 = store64 h1 (current + 8) block
             in Some (st\<lparr>fl_heap := h2\<rparr>)))"

partial_function (option) coalesce_loop :: "memory \<Rightarrow> addr \<Rightarrow> memory option" where
  "coalesce_loop h current =
     (if current \<noteq> 0 \<and> load64 h (current + 8) \<noteq> 0
      then
        if current + load64 h current = load64 h (current + 8)
        then
          let h1 = store64 h current (load64 h current + load64 h (load64 h (current + 8)));
              h2 = store64 h1 (current + 8) (load64 h1 (load64 h1 (current + 8) + 8))
          in coalesce_loop h2 current
        else coalesce_loop h (load64 h (current + 8))
      else Some h)"

declare coalesce_loop.simps [code]

definition coalesce :: "FreeListAllocator \<Rightarrow> FreeListAllocator option" where
  "coalesce st =
     (case coalesce_loop (fl_heap st) (fl_free_list st) of
        None \<Rightarrow> None
      | Some h \<Rightarrow> Some (st\<lparr>fl_heap := h\<rparr>))"

definition FreeListAllocator_owns :: "FreeListAllocator \<Rightarrow> addr \<Rightarrow> bool" where
  "FreeListAllocator_owns st ptr =
     (if fl_memory st = 0 \<or> ptr = 0 then False
      else ptr \<ge> fl_memory st \<and> ptr < fl_memory st + m_total_size st)"

text \<open>
  \<open>take_block\<close> is the part of \<open>allocate\<close> after a block was found: split or use it
  whole, unlink it, and write the allocation header. It returns the size recorded in the
  header.
\<close>

definition take_block :: "addr \<Rightarrow> addr \<Rightarrow> size_t \<Rightarrow> FreeListAllocator \<Rightarrow> FreeListAllocator" where
  "take_block block prev_block total_size st =
     (let h = fl_heap st;
          remaining = load64 h block - total_size;
          st1 =
            (if remaining \<ge> sizeof_FreeBlock + MIN_BLOCK_SIZE
             then
               let new_block = block + total_size;
                   h1 = store64 h new_block remaining;
                   h2 = store64 h1 (new_block + 8) (load64 h1 (block + 8))
               in if prev_block \<noteq> 0
                  then st\<lparr>fl_heap := store64 h2 (prev_block + 8) new_block\<rparr>
                  else st\<lparr>fl_heap := h2, fl_free_list := new_block\<rparr>
             else
               if prev_block \<noteq> 0
               then st\<lparr>fl_heap := store64 h (prev_block + 8) (load64 h (block + 8))\<rparr>
               else st\<lparr>fl_free_list := load64 h (block + 8)\<rparr>);
          total = (if remaining \<ge> sizeof_FreeBlock + MIN_BLOCK_SIZE
                   then total_size else load64 h block);
          h3 = store64 (fl_heap st1) block total;
          h4 = store64 h3 (block + 8) 0
      in st1\<lparr>fl_heap := h4\<rparr>)"

definition FreeListAllocator_allocate ::
  "size_t \<Rightarrow> size_t \<Rightarrow> real \<Rightarrow> FreeListAllocator \<Rightarrow> (addr \<times> FreeListAllocator) option" where
  "FreeListAllocator_allocate sz al time_ns st =
     (if fl_memory st = 0 \<or> sz = 0 then Some (0, st)
      else
        let total_size = align_size (sz + fl_header_size) al
        in case find_block st total_size of
             None \<Rightarrow> None
           | Some (block, prev_block) \<Rightarrow>
               if block = 0 then Some (0, st)
               else
                 let st1 = take_block block prev_block total_size st;
                     ptr = block + fl_header_size;
                     st2 = record_allocation ptr sz al time_ns st1
                 in case update_fragmentation st2 of
                      None \<Rightarrow> None
                    | Some st3 \<Rightarrow> Some (ptr, st3))"

definition FreeListAllocator_deallocate ::
  "addr \<Rightarrow> real \<Rightarrow> FreeListAllocator \<Rightarrow> FreeListAllocator option" where
  "FreeListAllocator_deallocate ptr time_ns st =
     (if ptr = 0 \<or> \<not> FreeListAllocator_owns st ptr then Some st
      else
        let header = ptr - fl_header_size;
            sz = load64 (fl_heap st) header;
            st1 = st\<lparr>fl_heap := store64 (fl_heap st) header sz\<rparr>
        in case insert_free_block header st1 of
             None \<Rightarrow> None
           | Some st2 \<Rightarrow>
               (case coalesce st2 of
                  None \<Rightarrow> None
                | Some st3 \<Rightarrow>
                    update_fragmentation (record_deallocation (sz - fl_header_size) time_ns st3)))"

definition FreeListAllocator_reset :: "FreeListAllocator \<Rightarrow> FreeListAllocator" where
  "FreeListAllocator_reset st =
     (let st1 =
            (if fl_memory st \<noteq> 0
             then st\<lparr>fl_free_list := fl_memory st,
                     fl_heap := store64 (store64 (fl_heap st) (fl_memory st) (m_total_size st))
                                  (fl_memory st + 8) 0\<rparr>
             else st)
      in st1\<lparr>m_stats := AllocationStats_init, m_allocation_history := []\<rparr>)"

definition set_policy :: "FitPolicy \<Rightarrow> FreeListAllocator \<Rightarrow> FreeListAllocator" where
  "set_policy policy st = st\<lparr>m_policy := policy\<rparr>"

section \<open>StandardAllocator\<close>

text \<open>
  The tracking map \<open>m_allocations\<close> is an association list from pointers to
  \<open>(size, alignment)\<close>. The system allocator is outside the program: \<open>allocate\<close> takes the
  pointer that \<open>::operator new\<close> returned as an argument (0 when it failed), and every call
  of \<open>::operator delete\<close> is appended to the log \<open>os_deleted\<close>, with the alignment for the
  aligned overload.
\<close>

datatype os_delete = Delete addr | DeleteAligned addr size_t

record StandardAllocator = BaseAllocator +
  m_allocations :: "(addr \<times> (size_t \<times> size_t)) list"
  os_deleted :: "os_delete list"

definition StandardAllocator_init :: StandardAllocator where
  "StandardAllocator_init =
     \<lparr>m_name = ''Standard (new/delete)'', m_total_size = - 1,
      m_stats = AllocationStats_init, m_allocation_history = [],
      m_allocations = [], os_deleted = []\<rparr>"

definition operator_delete :: "addr \<Rightarrow> size_t \<Rightarrow> os_delete" where
  "operator_delete ptr al = (if al > max_align then DeleteAligned ptr al else Delete ptr)"

definition StandardAllocator_allocate ::
  "size_t \<Rightarrow> size_t \<Rightarrow> addr \<Rightarrow> real \<Rightarrow> StandardAllocator \<Rightarrow> addr \<times> StandardAllocator" where
  "StandardAllocator_allocate sz al new_result time_ns st =
     (if sz = 0 then (0, st)
      else
        let al1 = (if \<not> is_power_of_two al then max_align else al);
            ptr = new_result
        in if ptr \<noteq> 0
           then (ptr, record_allocation ptr sz al1 time_ns
                        (st\<lparr>m_allocations := AList.update ptr (sz, al1) (m_allocations st)\<rparr>))
           else (ptr, st))"

definition StandardAllocator_deallocate :: "addr \<Rightarrow> real \<Rightarrow> StandardAllocator \<Rightarrow> StandardAllocator" where
  "StandardAllocator_deallocate ptr time_ns st =
     (if ptr = 0 then st
      else
        case map_of (m_allocations st) ptr of
          None \<Rightarrow> st
        | Some (sz, al) \<Rightarrow>
            record_deallocation sz time_ns
              (st\<lparr>os_deleted := os_deleted st @ [operator_delete ptr al],
                  m_allocations := AList.delete ptr (m_allocations st)\<rparr>))"

definition StandardAllocator_reset :: "StandardAllocator \<Rightarrow> StandardAllocator" where
  "StandardAllocator_reset st =
     st\<lparr>os_deleted := os_deleted st @ map (\<lambda>(ptr, info). operator_delete ptr (snd info)) (m_allocations st),
        m_allocations := [], m_stats := AllocationStats_init, m_allocation_history := []\<rparr>"

definition StandardAllocator_owns :: "StandardAllocator \<Rightarrow> addr \<Rightarrow> bool" where
  "StandardAllocator_owns st ptr = (map_of (m_allocations st) ptr \<noteq> None)"

definition StandardAllocator_available :: "StandardAllocator \<Rightarrow> size_t" where
  "StandardAllocator_available st = - 1"

text \<open>The destructor of the baseline variant calls \<open>reset\<close>.\<close>

definition StandardAllocator_dtor :: "StandardAllocator \<Rightarrow> StandardAllocator" where
  "StandardAllocator_dtor st = StandardAllocator_reset st"

section \<open>The allocator interface\<close>

text \<open>
  Callers hold a \<open>BaseAllocator&\<close> and reach the variants through its virtual methods.
  The four variants are the cases of one type, and each virtual method dispatches on the
  case. A state is reachable from a constructed allocator by calls of the public
  methods. Only the free-list methods can fail to return; they do so when a walk over the
  free list does not end.
\<close>

datatype Allocator =
    Standard StandardAllocator
  | Pool PoolAllocator
  | Stack StackAllocator
  | FreeList FreeListAllocator

fun allocate :: "size_t \<Rightarrow> size_t \<Rightarrow> addr \<Rightarrow> real \<Rightarrow> Allocator \<Rightarrow> (addr \<times> Allocator) option" where
  "allocate sz al new_result time_ns (Standard s) =
     (case StandardAllocator_allocate sz al new_result time_ns s of
        (p, s') \<Rightarrow> Some (p, Standard s'))"
| "allocate sz al new_result time_ns (Pool s) =
     (case PoolAllocator_allocate sz al time_ns s of (p, s') \<Rightarrow> Some (p, Pool s'))"
| "allocate sz al new_result time_ns (Stack s) =
     (case StackAllocator_allocate sz al time_ns s of (p, s') \<Rightarrow> Some (p, Stack s'))"
| "allocate sz al new_result time_ns (FreeList s) =
     (case FreeListAllocator_allocate sz al time_ns s of
        None \<Rightarrow> None
      | Some (p, s') \<Rightarrow> Some (p, FreeList s'))"

fun deallocate :: "addr \<Rightarrow> real \<Rightarrow> Allocator \<Rightarrow> Allocator option" where
  "deallocate ptr time_ns (Standard s) = Some (Standard (StandardAllocator_deallocate ptr time_ns s))"
| "deallocate ptr time_ns (Pool s) = Some (Pool (PoolAllocator_deallocate ptr time_ns s))"
| "deallocate ptr time_ns (Stack s) = Some (Stack (StackAllocator_deallocate ptr time_ns s))"
| "deallocate ptr time_ns (FreeList s) =
     (case FreeListAllocator_deallocate ptr time_ns s of
        None \<Rightarrow> None
      | Some s' \<Rightarrow> Some (FreeList s'))"

fun reset :: "Allocator \<Rightarrow> Allocator" where
  "reset (Standard s) = Standard (StandardAllocator_reset s)"
| "reset (Pool s) = Pool (PoolAllocator_reset s)"
| "reset (Stack s) = Stack (StackAllocator_reset s)"
| "reset (FreeList s) = FreeList (FreeListAllocator_reset s)"

fun available :: "Allocator \<Rightarrow> size_t option" where
  "available (Standard s) = Some (StandardAllocator_available s)"
| "available (Pool s) = Some (PoolAllocator_available s)"
| "available (Stack s) = Some (StackAllocator_available s)"
| "available (FreeList s) = FreeListAllocator_available s"

inductive constructed :: "Allocator \<Rightarrow> bool" where
  "constructed (Standard StandardAllocator_init)"
| "constructed (Pool (PoolAllocator_init block_size block_count al mem h))"
| "constructed (Stack (StackAllocator_init sz al mem h))"
| "constructed (FreeList (FreeListAllocator_init sz policy mem h))"

inductive reachable :: "Allocator \<Rightarrow> Allocator \<Rightarrow> bool" for c :: Allocator where
  reach_init: "reachable c c"
| reach_allocate:
    "reachable c st \<Longrightarrow> allocate sz al new_result time_ns st = Some (p, st') \<Longrightarrow> reachable c st'"
| reach_deallocate:
    "reachable c st \<Longrightarrow> deallocate ptr time_ns st = Some st' \<Longrightarrow> reachable c st'"
| reach_reset: "reachable c st \<Longrightarrow> reachable c (reset st)"
| reach_rollback: "reachable c (Stack s) \<Longrightarrow> reachable c (Stack (rollback_to_marker marker s))"
| reach_set_policy: "reachable c (FreeList s) \<Longrightarrow> reachable c (FreeList (set_policy policy s))"

text \<open>What no operation changes, and what \<open>available\<close> after a reset depends on.\<close>

fun config :: "Allocator \<Rightarrow> nat \<times> size_t \<times> addr \<times> size_t \<times> size_t" where
  "config (Standard s) = (0, m_total_size s, 0, 0, 0)"
| "config (Pool s) = (1, m_total_size s, pool_memory s, m_block_size s, m_block_count s)"
| "config (Stack s) = (2, m_total_size s, stk_memory s, 0, 0)"
| "config (FreeList s) = (3, m_total_size s, fl_memory s, 0, 0)"

fun null_backing_inv :: "Allocator \<Rightarrow> bool" where
  "null_backing_inv (FreeList s) = (fl_memory s = 0 \<longrightarrow> fl_free_list s = 0)"
| "null_backing_inv _ = True"

section \<open>Statistics\<close>






section \<open>Concrete runs\<close>

text \<open>
  The runs below start from allocators constructed over a zeroed region whose base
  address is 4096 (a multiple of 16, as \<open>aligned_alloc\<close> returns for the default
  alignment). Timer readings are 0.
\<close>

text \<open>Stack(1024): \<open>allocate(100, 8)\<close>, then \<open>allocate(200, 8)\<close>.\<close>

definition stack_two_a1 :: "addr \<times> StackAllocator" where
  "stack_two_a1 = StackAllocator_allocate 100 8 0 (StackAllocator_init 1024 16 4096 zero_memory)"

definition stack_two_a2 :: "addr \<times> StackAllocator" where
  "stack_two_a2 = StackAllocator_allocate 200 8 0 (snd stack_two_a1)"

text \<open>
  Stack(1024): \<open>allocate(2^64 - 20, 8)\<close>, \<open>allocate(8, 1)\<close>, then the two deallocations
  in reverse order.
\<close>

definition lifo_a1 :: "addr \<times> StackAllocator" where
  "lifo_a1 = StackAllocator_allocate (- 20) 8 0 (StackAllocator_init 1024 16 4096 zero_memory)"

definition lifo_a2 :: "addr \<times> StackAllocator" where
  "lifo_a2 = StackAllocator_allocate 8 1 0 (snd lifo_a1)"

definition lifo_d2 :: StackAllocator where
  "lifo_d2 = StackAllocator_deallocate (fst lifo_a2) 0 (snd lifo_a2)"

definition lifo_d1 :: StackAllocator where
  "lifo_d1 = StackAllocator_deallocate (fst lifo_a1) 0 lifo_d2"

text \<open>Stack(1024): \<open>allocate(8, 8)\<close> and the deallocation of its result.\<close>

definition history_a :: "addr \<times> StackAllocator" where
  "history_a = StackAllocator_allocate 8 8 0 (StackAllocator_init 1024 16 4096 zero_memory)"

definition history_d :: StackAllocator where
  "history_d = StackAllocator_deallocate (fst history_a) 0 (snd history_a)"

text \<open>Pool(block_size = 64, block_count = 4, alignment = 16): \<open>allocate(0, 16)\<close>.\<close>

definition pool_zero :: "addr \<times> PoolAllocator" where
  "pool_zero = PoolAllocator_allocate 0 16 0 (PoolAllocator_init 64 4 16 4096 zero_memory)"

text \<open>Standard: one allocation of 128 bytes that \<open>::operator new\<close> placed at 8192.\<close>

definition standard_one :: "addr \<times> StandardAllocator" where
  "standard_one = StandardAllocator_allocate 128 16 8192 0 StandardAllocator_init"

text \<open>Then a second one, of 256 bytes with alignment 64, that the aligned overload placed at 12288.\<close>

definition standard_two :: "addr \<times> StandardAllocator" where
  "standard_two = StandardAllocator_allocate 256 64 12288 0 (snd standard_one)"

text \<open>FreeList(1024, BEST_FIT), freshly constructed.\<close>

definition fl_fresh :: FreeListAllocator where
  "fl_fresh = FreeListAllocator_init 1024 BEST_FIT 4096 zero_memory"

text \<open>\<open>allocate(1, 16)\<close> on it and the deallocation of the result.\<close>

definition fl_acct_a :: "(addr \<times> FreeListAllocator) option" where
  "fl_acct_a = FreeListAllocator_allocate 1 16 0 fl_fresh"

definition fl_acct_d :: "FreeListAllocator option" where
  "fl_acct_d =
     (case fl_acct_a of None \<Rightarrow> None | Some (p, st) \<Rightarrow> FreeListAllocator_deallocate p 0 st)"

definition acct_heap :: memory where
  "acct_heap = store64 (store64 (store64 (store64 (store64 (store64 zero_memory
      4096 1024) 4104 0) 4128 992) 4136 0) 4096 32) 4104 0"

text \<open>\<open>allocate(2^64 - 16, 16)\<close> on it and the deallocation of the result.\<close>

definition fl_wrap_a :: "(addr \<times> FreeListAllocator) option" where
  "fl_wrap_a = FreeListAllocator_allocate (- 16) 16 0 fl_fresh"

definition fl_wrap_d :: "FreeListAllocator option" where
  "fl_wrap_d =
     (case fl_wrap_a of None \<Rightarrow> None | Some (p, st) \<Rightarrow> FreeListAllocator_deallocate p 0 st)"

definition wrap_heap :: memory where
  "wrap_heap = store64 (store64 (store64 (store64 (store64 (store64 zero_memory
      4096 1024) 4104 0) 4096 1024) 4104 0) 4096 0) 4104 0"




text \<open>A free node of size 0 whose \<open>next\<close> pointer is the node itself.\<close>

definition self_linked :: "memory \<Rightarrow> addr \<Rightarrow> bool" where
  "self_linked h c \<longleftrightarrow> c \<noteq> 0 \<and> load64 h c = 0 \<and> load64 h (c + 8) = c"

section \<open>Reading and writing memory\<close>

lemma store64_apply: "store64 h a v x = (if x - a < 8 then ucast (drop_bit (8 * unat (x - a)) v) else h x)"
  by (simp add: store64_def)

lemma bit_byte_iff:
  fixes v :: "64 word"
  shows "bit (push_bit m (ucast (ucast (drop_bit m v) :: 8 word)) :: 64 word) n
     \<longleftrightarrow> m \<le> n \<and> n < m + 8 \<and> bit v n"
proof (cases "m \<le> n")
  case True
  then have "m + (n - m) = n" by simp
  then show ?thesis
    using True bit_imp_le_length [of v n]
    by (auto simp add: bit_push_bit_iff bit_ucast_iff bit_drop_bit_eq)
next
  case False
  then show ?thesis by (simp add: bit_push_bit_iff)
qed

lemma bit_byte0_iff:
  fixes v :: "64 word"
  shows "bit (ucast (ucast v :: 8 word) :: 64 word) n \<longleftrightarrow> n < 8 \<and> bit v n"
  using bit_byte_iff [of 0 v n] by simp

lemma byte_recompose:
  fixes v :: "64 word"
  shows "ucast (ucast v :: 8 word)
     OR push_bit 8 (ucast (ucast (drop_bit 8 v) :: 8 word))
     OR push_bit 16 (ucast (ucast (drop_bit 16 v) :: 8 word))
     OR push_bit 24 (ucast (ucast (drop_bit 24 v) :: 8 word))
     OR push_bit 32 (ucast (ucast (drop_bit 32 v) :: 8 word))
     OR push_bit 40 (ucast (ucast (drop_bit 40 v) :: 8 word))
     OR push_bit 48 (ucast (ucast (drop_bit 48 v) :: 8 word))
     OR push_bit 56 (ucast (ucast (drop_bit 56 v) :: 8 word)) = v"
proof (rule bit_word_eqI)
  fix n :: nat
  assume "n < LENGTH(64)"
  then have n: "n < 64" by simp
  show "bit (ucast (ucast v :: 8 word)
     OR push_bit 8 (ucast (ucast (drop_bit 8 v) :: 8 word))
     OR push_bit 16 (ucast (ucast (drop_bit 16 v) :: 8 word))
     OR push_bit 24 (ucast (ucast (drop_bit 24 v) :: 8 word))
     OR push_bit 32 (ucast (ucast (drop_bit 32 v) :: 8 word))
     OR push_bit 40 (ucast (ucast (drop_bit 40 v) :: 8 word))
     OR push_bit 48 (ucast (ucast (drop_bit 48 v) :: 8 word))
     OR push_bit 56 (ucast (ucast (drop_bit 56 v) :: 8 word)) :: 64 word) n = bit v n"
  proof (cases "bit v n")
    case False
    then show ?thesis by (simp only: bit_or_iff bit_byte_iff bit_byte0_iff) simp
  next
    case True
    have "n < 8 \<or> (8 \<le> n \<and> n < 8 + 8) \<or> (16 \<le> n \<and> n < 16 + 8) \<or> (24 \<le> n \<and> n < 24 + 8)
     \<or> (32 \<le> n \<and> n < 32 + 8) \<or> (40 \<le> n \<and> n < 40 + 8) \<or> (48 \<le> n \<and> n < 48 + 8)
     \<or> (56 \<le> n \<and> n < 56 + 8)"
      using n by arith
    with True show ?thesis by (simp only: bit_or_iff bit_byte_iff bit_byte0_iff) blast
  qed
qed

lemma load64_store64_same: "load64 (store64 h a v) a = v"
  by (simp add: load64_def store64_apply byte_recompose)

lemma far_offset:
  fixes d k :: "64 word"
  assumes "8 \<le> d" and "d \<le> - 8" and "k < 8"
  shows "\<not> (d + k < 8)"
proof -
  have d1: "8 \<le> unat d" using assms(1) by (simp add: word_le_nat_alt)
  have d2: "unat d \<le> 2 ^ 64 - 8" using assms(2) by (simp add: word_le_nat_alt)
  have k1: "unat k < 8" using assms(3) by (simp add: word_less_nat_alt)
  have "unat d + unat k < 2 ^ LENGTH(64)" using d2 k1 by simp
  then have "unat (d + k) = unat d + unat k" by (simp only: unat_add_lem)
  then show ?thesis using d1 by (simp add: word_less_nat_alt)
qed

lemma store64_far:
  assumes "8 \<le> b - a" and "b - a \<le> - 8" and "k < 8"
  shows "store64 h a v (b + k) = h (b + k)"
proof -
  have eq: "b + k - a = (b - a) + k" by simp
  have "\<not> (b + k - a < 8)" unfolding eq by (rule far_offset [OF assms])
  then show ?thesis by (simp only: store64_apply if_False)
qed

lemma load64_store64_other:
  assumes "8 \<le> b - a" and "b - a \<le> - 8"
  shows "load64 (store64 h a v) b = load64 h b"
proof -
  have "store64 h a v b = h b" using store64_far [OF assms, of 0] by simp
  moreover have "store64 h a v (b + 1) = h (b + 1)" by (rule store64_far [OF assms]) simp
  moreover have "store64 h a v (b + 2) = h (b + 2)" by (rule store64_far [OF assms]) simp
  moreover have "store64 h a v (b + 3) = h (b + 3)" by (rule store64_far [OF assms]) simp
  moreover have "store64 h a v (b + 4) = h (b + 4)" by (rule store64_far [OF assms]) simp
  moreover have "store64 h a v (b + 5) = h (b + 5)" by (rule store64_far [OF assms]) simp
  moreover have "store64 h a v (b + 6) = h (b + 6)" by (rule store64_far [OF assms]) simp
  moreover have "store64 h a v (b + 7) = h (b + 7)" by (rule store64_far [OF assms]) simp
  ultimately show ?thesis by (simp only: load64_def)
qed

lemma load64_zero_memory: "load64 zero_memory a = 0"
  by (simp add: load64_def zero_memory_def)

lemmas mem_simps = load64_store64_same load64_store64_other load64_zero_memory

lemmas stack_defs = StackAllocator_allocate_def StackAllocator_deallocate_def align_size_def
  stk_header_size_def record_allocation_def record_deallocation_def Let_def

section \<open>What the operations leave unchanged\<close>

lemma record_allocation_base [simp]:
  "m_total_size (record_allocation p sz al t b) = m_total_size b"
  by (simp add: record_allocation_def Let_def)

lemma record_deallocation_base [simp]:
  "m_total_size (record_deallocation sz t b) = m_total_size b"
  by (simp add: record_deallocation_def Let_def)

lemma record_allocation_more [simp]:
  "BaseAllocator.more (record_allocation p sz al t b) = BaseAllocator.more b"
  by (simp add: record_allocation_def Let_def)

lemma record_deallocation_more [simp]:
  "BaseAllocator.more (record_deallocation sz t b) = BaseAllocator.more b"
  by (simp add: record_deallocation_def Let_def)

lemma stk_memory_record [simp]:
  "stk_memory (record_allocation p sz al t s) = stk_memory s"
  "stk_memory (record_deallocation sz t s) = stk_memory s"
  by (simp_all add: record_allocation_def record_deallocation_def Let_def)

lemma stack_allocate_fields:
  "StackAllocator_allocate sz al t s = (p, s') \<Longrightarrow>
     m_total_size s' = m_total_size s \<and> stk_memory s' = stk_memory s"
  by (auto simp add: StackAllocator_allocate_def Let_def split: if_splits)

lemma stack_deallocate_fields:
  "m_total_size (StackAllocator_deallocate p t s) = m_total_size s
   \<and> stk_memory (StackAllocator_deallocate p t s) = stk_memory s"
  by (simp add: StackAllocator_deallocate_def Let_def)

lemma pool_fields_record [simp]:
  "pool_memory (record_allocation p sz al t s) = pool_memory s"
  "pool_memory (record_deallocation sz t s) = pool_memory s"
  "m_block_size (record_allocation p sz al t s) = m_block_size s"
  "m_block_size (record_deallocation sz t s) = m_block_size s"
  "m_block_count (record_allocation p sz al t s) = m_block_count s"
  "m_block_count (record_deallocation sz t s) = m_block_count s"
  by (simp_all add: record_allocation_def record_deallocation_def Let_def)

lemma fl_fields_record [simp]:
  "fl_memory (record_allocation p sz al t s) = fl_memory s"
  "fl_memory (record_deallocation sz t s) = fl_memory s"
  "fl_free_list (record_allocation p sz al t s) = fl_free_list s"
  "fl_free_list (record_deallocation sz t s) = fl_free_list s"
  "fl_heap (record_allocation p sz al t s) = fl_heap s"
  "fl_heap (record_deallocation sz t s) = fl_heap s"
  by (simp_all add: record_allocation_def record_deallocation_def Let_def)

lemma pool_allocate_fields:
  "PoolAllocator_allocate sz al t s = (p, s') \<Longrightarrow>
     m_total_size s' = m_total_size s \<and> pool_memory s' = pool_memory s
     \<and> m_block_size s' = m_block_size s \<and> m_block_count s' = m_block_count s"
  by (auto simp add: PoolAllocator_allocate_def Let_def split: if_splits)

lemma pool_deallocate_fields:
  "m_total_size (PoolAllocator_deallocate p t s) = m_total_size s
   \<and> pool_memory (PoolAllocator_deallocate p t s) = pool_memory s
   \<and> m_block_size (PoolAllocator_deallocate p t s) = m_block_size s
   \<and> m_block_count (PoolAllocator_deallocate p t s) = m_block_count s"
  by (simp add: PoolAllocator_deallocate_def Let_def)

lemma pool_reset_fields:
  "m_total_size (PoolAllocator_reset s) = m_total_size s
   \<and> pool_memory (PoolAllocator_reset s) = pool_memory s
   \<and> m_block_size (PoolAllocator_reset s) = m_block_size s
   \<and> m_block_count (PoolAllocator_reset s) = m_block_count s
   \<and> m_allocated_blocks (PoolAllocator_reset s) = 0"
  by (simp add: PoolAllocator_reset_def initialize_free_list_def Let_def)

lemma standard_allocate_fields:
  "StandardAllocator_allocate sz al nr t s = (p, s') \<Longrightarrow> m_total_size s' = m_total_size s"
  by (auto simp add: StandardAllocator_allocate_def Let_def split: if_splits)

lemma standard_deallocate_fields:
  "m_total_size (StandardAllocator_deallocate p t s) = m_total_size s"
  by (simp add: StandardAllocator_deallocate_def Let_def split: option.splits)

lemma update_fragmentation_fields:
  assumes "update_fragmentation s = Some s'"
  shows "fl_memory s' = fl_memory s \<and> m_total_size s' = m_total_size s
    \<and> fl_free_list s' = fl_free_list s \<and> fl_heap s' = fl_heap s"
  using assms by (auto simp add: update_fragmentation_def split: option.splits)

lemma take_block_fields:
  "fl_memory (take_block b pb ts s) = fl_memory s"
  "m_total_size (take_block b pb ts s) = m_total_size s"
  by (simp_all add: take_block_def Let_def)

lemma insert_free_block_fields:
  assumes "insert_free_block b s = Some s'"
  shows "fl_memory s' = fl_memory s \<and> m_total_size s' = m_total_size s"
  using assms by (auto simp add: insert_free_block_def Let_def split: if_splits option.splits)

lemma coalesce_fields:
  assumes "coalesce s = Some s'"
  shows "fl_memory s' = fl_memory s \<and> m_total_size s' = m_total_size s
    \<and> fl_free_list s' = fl_free_list s"
  using assms by (auto simp add: coalesce_def split: option.splits)

lemma freelist_allocate_fields:
  assumes "FreeListAllocator_allocate sz al t s = Some (p, s')"
  shows "fl_memory s' = fl_memory s \<and> m_total_size s' = m_total_size s"
  using assms
  by (auto simp add: FreeListAllocator_allocate_def Let_def take_block_fields
      dest!: update_fragmentation_fields split: if_splits option.splits prod.splits)

lemma freelist_allocate_null:
  assumes "FreeListAllocator_allocate sz al t s = Some (p, s')" and "fl_memory s = 0"
  shows "s' = s"
  using assms by (simp add: FreeListAllocator_allocate_def)

lemma freelist_deallocate_fields:
  assumes "FreeListAllocator_deallocate p t s = Some s'"
  shows "fl_memory s' = fl_memory s \<and> m_total_size s' = m_total_size s"
  using assms
  by (auto simp add: FreeListAllocator_deallocate_def Let_def
      dest!: update_fragmentation_fields coalesce_fields insert_free_block_fields
      split: if_splits option.splits)

lemma freelist_deallocate_null:
  assumes "FreeListAllocator_deallocate p t s = Some s'" and "fl_memory s = 0"
  shows "s' = s"
  using assms by (simp add: FreeListAllocator_deallocate_def FreeListAllocator_owns_def)

lemma config_allocate:
  assumes "allocate sz al nr t st = Some (p, st')"
  shows "config st' = config st"
proof (cases st)
  case (Standard s)
  with assms show ?thesis
    by (cases "StandardAllocator_allocate sz al nr t s") (auto dest: standard_allocate_fields)
next
  case (Pool s)
  with assms show ?thesis
    by (cases "PoolAllocator_allocate sz al t s") (auto dest: pool_allocate_fields)
next
  case (Stack s)
  with assms show ?thesis
    by (cases "StackAllocator_allocate sz al t s") (auto dest: stack_allocate_fields)
next
  case (FreeList s)
  with assms show ?thesis
    by (auto dest: freelist_allocate_fields split: option.splits)
qed

lemma config_deallocate:
  assumes "deallocate p t st = Some st'"
  shows "config st' = config st"
  using assms
  by (cases st)
     (auto simp add: standard_deallocate_fields pool_deallocate_fields stack_deallocate_fields
       dest: freelist_deallocate_fields split: option.splits)

lemma config_reset: "config (reset st) = config st"
  by (cases st)
     (simp_all add: StandardAllocator_reset_def pool_reset_fields StackAllocator_reset_def
        FreeListAllocator_reset_def Let_def)

lemma reachable_config:
  assumes "reachable c st"
  shows "config st = config c"
  using assms
proof (induction rule: reachable.induct)
  case reach_init
  show ?case by simp
next
  case (reach_allocate st sz al new_result time_ns p st')
  then show ?case by (simp add: config_allocate)
next
  case (reach_deallocate st ptr time_ns st')
  then show ?case by (simp add: config_deallocate)
next
  case (reach_reset st)
  then show ?case by (simp add: config_reset)
next
  case (reach_rollback s marker)
  then show ?case by (simp add: rollback_to_marker_def Let_def)
next
  case (reach_set_policy s policy)
  then show ?case by (simp add: set_policy_def)
qed

lemma constructed_null_backing:
  assumes "constructed c"
  shows "null_backing_inv c"
  using assms by (cases rule: constructed.cases) (simp_all add: FreeListAllocator_init_def Let_def)

lemma reachable_null_backing:
  assumes "reachable c st" and "null_backing_inv c"
  shows "null_backing_inv st"
  using assms
proof (induction rule: reachable.induct)
  case reach_init
  then show ?case by simp
next
  case (reach_allocate st sz al new_result time_ns p st')
  then have inv: "null_backing_inv st" by simp
  show ?case
  proof (cases st)
    case (FreeList s)
    with reach_allocate.hyps(2) obtain s' where
      s': "FreeListAllocator_allocate sz al time_ns s = Some (p, s')" "st' = FreeList s'"
      by (auto split: option.splits)
    show ?thesis
    proof (cases "fl_memory s = 0")
      case True
      with s' inv FreeList show ?thesis by (auto dest: freelist_allocate_null)
    next
      case False
      with s' show ?thesis by (auto dest: freelist_allocate_fields)
    qed
  qed (use reach_allocate.hyps(2) in \<open>auto split: prod.splits\<close>)
next
  case (reach_deallocate st ptr time_ns st')
  then have inv: "null_backing_inv st" by simp
  show ?case
  proof (cases st)
    case (FreeList s)
    with reach_deallocate.hyps(2) obtain s' where
      s': "FreeListAllocator_deallocate ptr time_ns s = Some s'" "st' = FreeList s'"
      by (auto split: option.splits)
    show ?thesis
    proof (cases "fl_memory s = 0")
      case True
      with s' inv FreeList show ?thesis by (auto dest: freelist_deallocate_null)
    next
      case False
      with s' show ?thesis by (auto dest: freelist_deallocate_fields)
    qed
  qed (use reach_deallocate.hyps(2) in auto)
next
  case (reach_reset st)
  then show ?case by (cases st) (simp_all add: FreeListAllocator_reset_def Let_def)
next
  case (reach_rollback s marker)
  show ?case by simp
next
  case (reach_set_policy s policy)
  then show ?case by (simp add: set_policy_def)
qed

section \<open>Reset\<close>

lemma stack_reset_idem: "StackAllocator_reset (StackAllocator_reset s) = StackAllocator_reset s"
  by (simp add: StackAllocator_reset_def)

lemma standard_reset_idem:
  "StandardAllocator_reset (StandardAllocator_reset s) = StandardAllocator_reset s"
  by (simp add: StandardAllocator_reset_def)

lemma store64_pair_idem:
  "store64 (store64 (store64 (store64 h a v) b w) a v) b w = store64 (store64 h a v) b w"
  by (rule ext) (simp add: store64_apply)

lemma freelist_reset_idem:
  "FreeListAllocator_reset (FreeListAllocator_reset s) = FreeListAllocator_reset s"
  by (simp add: FreeListAllocator_reset_def Let_def store64_pair_idem)

lemma initialize_loop_heap:
  "fst (initialize_free_list_loop n mem bs (h, fl)) x = fst (initialize_free_list_loop n mem bs (h', fl)) x
   \<or> (fst (initialize_free_list_loop n mem bs (h, fl)) x = h x
      \<and> fst (initialize_free_list_loop n mem bs (h', fl)) x = h' x)"
proof (induction n arbitrary: h h' fl)
  case 0
  show ?case by simp
next
  case (Suc n)
  define b where "b = mem + word_of_nat n * bs"
  define L where "L = fst (initialize_free_list_loop n mem bs (store64 h b fl, b)) x"
  define L' where "L' = fst (initialize_free_list_loop n mem bs (store64 h' b fl, b)) x"
  have unfold: "fst (initialize_free_list_loop (Suc n) mem bs (h, fl)) x = L"
    "fst (initialize_free_list_loop (Suc n) mem bs (h', fl)) x = L'"
    by (simp_all add: L_def L'_def b_def Let_def)
  from Suc.IH [of "store64 h b fl" b "store64 h' b fl"]
  have IH: "L = L' \<or> (L = store64 h b fl x \<and> L' = store64 h' b fl x)"
    by (simp only: L_def L'_def)
  have "L = L' \<or> (L = h x \<and> L' = h' x)"
  proof (cases "x - b < 8")
    case True
    then have "store64 h b fl x = store64 h' b fl x" by (simp add: store64_apply)
    with IH show ?thesis by auto
  next
    case False
    then have "store64 h b fl x = h x" "store64 h' b fl x = h' x" by (simp_all add: store64_apply)
    with IH show ?thesis by auto
  qed
  then show ?case by (simp only: unfold)
qed

lemma initialize_loop_head:
  "snd (initialize_free_list_loop n mem bs (h, fl)) = snd (initialize_free_list_loop n mem bs (h', fl))"
proof (induction n arbitrary: h h' fl)
  case 0
  show ?case by simp
next
  case (Suc n)
  show ?case by (simp add: Let_def Suc.IH [of "store64 h (mem + word_of_nat n * bs) fl" _ "store64 h' (mem + word_of_nat n * bs) fl"])
qed

lemma initialize_loop_idem:
  "initialize_free_list_loop n mem bs (fst (initialize_free_list_loop n mem bs (h, fl)), fl)
     = initialize_free_list_loop n mem bs (h, fl)"
proof (rule prod_eqI)
  show "fst (initialize_free_list_loop n mem bs (fst (initialize_free_list_loop n mem bs (h, fl)), fl))
     = fst (initialize_free_list_loop n mem bs (h, fl))"
  proof (rule ext)
    fix x
    from initialize_loop_heap [of n mem bs "fst (initialize_free_list_loop n mem bs (h, fl))" fl x h]
    show "fst (initialize_free_list_loop n mem bs (fst (initialize_free_list_loop n mem bs (h, fl)), fl)) x
       = fst (initialize_free_list_loop n mem bs (h, fl)) x"
      by auto
  qed
  show "snd (initialize_free_list_loop n mem bs (fst (initialize_free_list_loop n mem bs (h, fl)), fl))
     = snd (initialize_free_list_loop n mem bs (h, fl))"
    by (rule initialize_loop_head)
qed

lemma pool_reset_idem: "PoolAllocator_reset (PoolAllocator_reset s) = PoolAllocator_reset s"
  by (simp add: PoolAllocator_reset_def initialize_free_list_def Let_def initialize_loop_idem)

lemma reset_idem: "reset (reset st) = reset st"
  by (cases st) (simp_all add: stack_reset_idem standard_reset_idem freelist_reset_idem pool_reset_idem)

lemma available_loop_null: "available_loop h 0 n = Some n"
  by (subst available_loop.simps) simp

lemma available_single_node:
  assumes "mem \<noteq> 0"
  shows "available_loop (store64 (store64 h mem n) (mem + 8) 0) mem 0 = Some n"
proof -
  let ?h = "store64 (store64 h mem n) (mem + 8) 0"
  have nxt: "load64 ?h (mem + 8) = 0" by (rule load64_store64_same)
  have "load64 ?h mem = load64 (store64 h mem n) mem"
    by (rule load64_store64_other) simp_all
  then have sz: "load64 ?h mem = n" by (simp add: load64_store64_same)
  have "available_loop ?h mem 0 = available_loop ?h 0 n"
    using assms by (subst available_loop.simps) (simp add: nxt sz)
  also have "\<dots> = Some n" by (rule available_loop_null)
  finally show ?thesis .
qed

lemma available_reset:
  assumes "null_backing_inv st"
  shows "available (reset st) =
     (case st of
        Standard s \<Rightarrow> Some (- 1)
      | Pool s \<Rightarrow> Some (m_block_count s * m_block_size s)
      | Stack s \<Rightarrow> Some (m_total_size s)
      | FreeList s \<Rightarrow> Some (if fl_memory s = 0 then 0 else m_total_size s))"
proof (cases st)
  case (Standard s)
  then show ?thesis by (simp add: StandardAllocator_available_def)
next
  case (Pool s)
  then show ?thesis
    by (simp add: PoolAllocator_available_def free_blocks_def pool_reset_fields)
next
  case (Stack s)
  then show ?thesis by (simp add: StackAllocator_available_def StackAllocator_reset_def)
next
  case (FreeList s)
  show ?thesis
  proof (cases "fl_memory s = 0")
    case True
    with assms FreeList have "fl_free_list s = 0" by simp
    with True FreeList show ?thesis
      by (simp add: FreeListAllocator_available_def FreeListAllocator_reset_def available_loop_null)
  next
    case False
    with FreeList show ?thesis
      by (simp add: FreeListAllocator_available_def FreeListAllocator_reset_def Let_def
          available_single_node)
  qed
qed

lemma available_constructed:
  assumes "constructed c"
  shows "available c =
     (case c of
        Standard s \<Rightarrow> Some (- 1)
      | Pool s \<Rightarrow> Some (m_block_count s * m_block_size s)
      | Stack s \<Rightarrow> Some (m_total_size s)
      | FreeList s \<Rightarrow> Some (if fl_memory s = 0 then 0 else m_total_size s))"
  using assms
proof (cases rule: constructed.cases)
  case 1
  then show ?thesis by (simp add: StandardAllocator_available_def)
next
  case (2 block_size block_count al mem h)
  then show ?thesis
    by (simp add: PoolAllocator_available_def free_blocks_def PoolAllocator_init_def
        initialize_free_list_def Let_def)
next
  case (3 sz al mem h)
  then show ?thesis by (simp add: StackAllocator_available_def StackAllocator_init_def)
next
  case (4 sz policy mem h)
  show ?thesis
  proof (cases "mem = 0")
    case True
    with 4 show ?thesis
      by (simp add: FreeListAllocator_available_def FreeListAllocator_init_def Let_def
          available_loop_null)
  next
    case False
    with 4 show ?thesis
      by (simp add: FreeListAllocator_available_def FreeListAllocator_init_def Let_def
          available_single_node)
  qed
qed

section \<open>Evaluation of the concrete runs\<close>

lemma stack_two_a1_eval:
  "fst stack_two_a1 = 4120" "stk_memory (snd stack_two_a1) = 4096"
  "m_total_size (snd stack_two_a1) = 1024" "m_current_offset (snd stack_two_a1) = 124"
  "m_previous_offset (snd stack_two_a1) = 0"
  "stk_heap (snd stack_two_a1) = store64 (store64 (store64 zero_memory 4096 100) 4104 0) 4112 0"
  by (simp_all add: stack_two_a1_def StackAllocator_init_def stack_defs)

lemma stack_two_a2_eval:
  "fst stack_two_a2 = 4248" "stk_memory (snd stack_two_a2) = 4096"
  "m_total_size (snd stack_two_a2) = 1024" "m_current_offset (snd stack_two_a2) = 352"
  "m_previous_offset (snd stack_two_a2) = 124"
  "stk_heap (snd stack_two_a2) =
     store64 (store64 (store64 (stk_heap (snd stack_two_a1)) 4224 200) 4232 4) 4240 0"
  by (simp_all add: stack_two_a2_def stack_two_a1_eval(1-5) stack_defs)

lemma lifo_a1_eval:
  "fst lifo_a1 = 4120" "stk_memory (snd lifo_a1) = 4096" "m_total_size (snd lifo_a1) = 1024"
  "m_current_offset (snd lifo_a1) = 4" "m_previous_offset (snd lifo_a1) = 0"
  "stk_heap (snd lifo_a1) = store64 (store64 (store64 zero_memory 4096 (- 20)) 4104 0) 4112 0"
  by (simp_all add: lifo_a1_def StackAllocator_init_def stack_defs)

lemma lifo_a2_eval:
  "fst lifo_a2 = 4124" "stk_memory (snd lifo_a2) = 4096" "m_total_size (snd lifo_a2) = 1024"
  "m_current_offset (snd lifo_a2) = 36" "m_previous_offset (snd lifo_a2) = 4"
  "stk_heap (snd lifo_a2) = store64 (store64 (store64 (stk_heap (snd lifo_a1)) 4100 8) 4108 0) 4116 0"
  by (simp_all add: lifo_a2_def lifo_a1_eval(1-5) stack_defs)

lemma lifo_d2_eval:
  "stk_memory lifo_d2 = 4096" "m_current_offset lifo_d2 = 4" "m_previous_offset lifo_d2 = 0"
  "stk_heap lifo_d2 = stk_heap (snd lifo_a2)"
  by (simp_all add: lifo_d2_def lifo_a2_eval mem_simps stack_defs)

text \<open>
  The second header was written at offset 4 and overlaps the size field of the first
  header, which now reads \<open>0x8FFFFFFEC\<close>.
\<close>

lemma lifo_header1: "load64 (stk_heap (snd lifo_a2)) 4096 = 38654705644"
  by (simp add: lifo_a2_eval lifo_a1_eval mem_simps)
     (simp add: load64_def store64_def zero_memory_def)

lemma lifo_d1_eval:
  "m_current_offset lifo_d1 = 4" "m_previous_offset lifo_d1 = 0"
  by (simp_all add: lifo_d1_def lifo_d2_eval lifo_a1_eval(1-5) lifo_header1 stack_defs)

lemma history_a_eval:
  "fst history_a = 4120" "stk_memory (snd history_a) = 4096"
  "m_current_offset (snd history_a) = 32" "m_previous_offset (snd history_a) = 0"
  "stk_heap (snd history_a) = store64 (store64 (store64 zero_memory 4096 8) 4104 0) 4112 0"
  "m_allocation_history (snd history_a) =
     [\<lparr>address = 4120, info_size = 8, alignment = 8, timestamp = 0, is_active = True\<rparr>]"
  "m_stats (snd history_a) =
     \<lparr>total_allocations = 1, total_deallocations = 0, current_allocations = 1,
      total_bytes_allocated = 8, current_bytes_used = 8, peak_bytes_used = 8,
      fragmentation_bytes = 0, avg_allocation_time_ns = 0, avg_dealloc_time_ns = 0\<rparr>"
  by (simp_all add: history_a_def StackAllocator_init_def AllocationStats_init_def stack_defs)

lemma initialize_free_list_loop_numeral:
  "initialize_free_list_loop (numeral n) mem bs (h, fl) =
     initialize_free_list_loop (pred_numeral n) mem bs
       (store64 h (mem + word_of_nat (pred_numeral n) * bs) fl, mem + word_of_nat (pred_numeral n) * bs)"
  by (simp add: numeral_eq_Suc Let_def)

lemma pool_init_eval:
  "pool_memory (PoolAllocator_init 64 4 16 4096 zero_memory) = 4096"
  "pool_free_list (PoolAllocator_init 64 4 16 4096 zero_memory) = 4096"
  "m_block_size (PoolAllocator_init 64 4 16 4096 zero_memory) = 64"
  "m_block_count (PoolAllocator_init 64 4 16 4096 zero_memory) = 4"
  "pool_alignment (PoolAllocator_init 64 4 16 4096 zero_memory) = 16"
  "m_allocated_blocks (PoolAllocator_init 64 4 16 4096 zero_memory) = 0"
  "m_total_size (PoolAllocator_init 64 4 16 4096 zero_memory) = 256"
  "m_stats (PoolAllocator_init 64 4 16 4096 zero_memory) = AllocationStats_init"
  "m_allocation_history (PoolAllocator_init 64 4 16 4096 zero_memory) = []"
  by (simp_all add: PoolAllocator_init_def initialize_free_list_def align_size_def
      initialize_free_list_loop_numeral Let_def)

section \<open>A self-linked free node\<close>

lemma self_linked_step:
  assumes "self_linked h c"
  shows "self_linked (store64 (store64 h c 0) (c + 8) c) c"
proof -
  have "load64 (store64 (store64 h c 0) (c + 8) c) c = load64 (store64 h c 0) c"
    by (rule load64_store64_other) simp_all
  then show ?thesis
    using assms by (simp add: self_linked_def load64_store64_same)
qed

lemma coalesce_loop_not_self_linked:
  assumes "coalesce_loop h c = Some r"
  shows "\<not> self_linked h c"
proof (rule coalesce_loop.raw_induct [where P = "\<lambda>h c r. \<not> self_linked h c", OF _ assms],
    goal_cases)
  case (1 f h current r)
  show ?case
  proof
    assume sl: "self_linked h current"
    then have c: "current \<noteq> 0" "load64 h current = 0" "load64 h (current + 8) = current"
      by (simp_all add: self_linked_def)
    have n1: "load64 (store64 h current 0) (current + 8) = current"
      using c(3) by (simp add: load64_store64_other)
    from 1(2) have "f (store64 (store64 h current 0) (current + 8) current) current = Some r"
      by (simp add: c n1 Let_def)
    from 1(1) [OF this] self_linked_step [OF sl] show False by simp
  qed
qed

lemma coalesce_loop_self_linked:
  assumes "self_linked h c"
  shows "coalesce_loop h c = None"
proof (cases "coalesce_loop h c")
  case None
  then show ?thesis .
next
  case (Some r)
  from coalesce_loop_not_self_linked [OF Some] assms show ?thesis by simp
qed

section \<open>Evaluation of the free-list runs\<close>

lemmas fl_consts = fl_header_size_def sizeof_FreeBlock_def MIN_BLOCK_SIZE_def

lemma fl_fresh_eval:
  "fl_memory fl_fresh = 4096" "fl_free_list fl_fresh = 4096" "m_total_size fl_fresh = 1024"
  "m_policy fl_fresh = BEST_FIT" "m_stats fl_fresh = AllocationStats_init"
  "m_allocation_history fl_fresh = []"
  "fl_heap fl_fresh = store64 (store64 zero_memory 4096 1024) 4104 0"
  by (simp_all add: fl_fresh_def FreeListAllocator_init_def Let_def)

lemma fl_fresh_loads:
  "load64 (fl_heap fl_fresh) 4096 = 1024" "load64 (fl_heap fl_fresh) 4104 = 0"
  by (simp_all add: fl_fresh_eval mem_simps)

lemma acct_heap_loads:
  "load64 acct_heap 4096 = 32" "load64 acct_heap 4104 = 0"
  "load64 acct_heap 4128 = 992" "load64 acct_heap 4136 = 0"
  by (simp_all add: acct_heap_def mem_simps)

lemma fl_acct_alloc:
  "\<exists>st. fl_acct_a = Some (4112, st) \<and> fl_memory st = 4096 \<and> m_total_size st = 1024
     \<and> fl_free_list st = 4128 \<and> fl_heap st = acct_heap
     \<and> current_bytes_used (m_stats st) = 1 \<and> peak_bytes_used (m_stats st) = 1"
proof -
  define t where "t = take_block 4096 0 32 fl_fresh"
  define s1 where "s1 = record_allocation 4112 1 16 0 t"
  have ts: "align_size 17 16 = 32"
    by (simp add: align_size_def)
  have find: "find_block fl_fresh 32 = Some (4096, 0)"
    by (simp add: find_block_def fl_fresh_eval(1-6) fl_fresh_loads find_best_fit.simps)
  have t_fields: "fl_memory t = 4096" "m_total_size t = 1024" "fl_free_list t = 4128"
    "m_stats t = AllocationStats_init" "fl_heap t = acct_heap"
    by (simp_all add: t_def take_block_def fl_fresh_eval fl_consts mem_simps acct_heap_def Let_def)
  have s1_fields: "fl_memory s1 = 4096" "m_total_size s1 = 1024" "fl_free_list s1 = 4128"
    "fl_heap s1 = acct_heap"
    "current_bytes_used (m_stats s1) = 1" "peak_bytes_used (m_stats s1) = 1"
    by (simp_all add: s1_def t_fields record_allocation_def AllocationStats_init_def Let_def)
  have av: "available_loop acct_heap 4128 0 = Some 992"
    by (subst available_loop.simps, simp add: acct_heap_loads, subst available_loop.simps, simp)
  have lg: "largest_free_block_loop acct_heap 4128 0 = Some 992"
    by (subst largest_free_block_loop.simps, simp add: acct_heap_loads,
        subst largest_free_block_loop.simps, simp)
  have fr: "update_fragmentation s1 =
      Some (s1\<lparr>m_stats := (m_stats s1)\<lparr>fragmentation_bytes := 0\<rparr>\<rparr>)"
    by (simp add: update_fragmentation_def FreeListAllocator_available_def
        largest_free_block_def s1_fields av lg)
  have eq: "fl_acct_a = Some (4112, s1\<lparr>m_stats := (m_stats s1)\<lparr>fragmentation_bytes := 0\<rparr>\<rparr>)"
    unfolding fl_acct_a_def FreeListAllocator_allocate_def
    by (simp add: ts fl_fresh_eval(1) find fl_header_size_def Let_def
        t_def [symmetric] s1_def [symmetric] fr)
  show ?thesis
    unfolding eq
    by (rule exI [of _ "s1\<lparr>m_stats := (m_stats s1)\<lparr>fragmentation_bytes := 0\<rparr>\<rparr>"])
       (simp add: s1_fields)
qed

lemma fl_acct_dealloc:
  assumes "fl_memory st = 4096" and "m_total_size st = 1024" and "fl_free_list st = 4128"
    and "fl_heap st = acct_heap"
    and "current_bytes_used (m_stats st) = 1" and "peak_bytes_used (m_stats st) = 1"
  shows "\<exists>st'. FreeListAllocator_deallocate 4112 0 st = Some st'
    \<and> current_bytes_used (m_stats st') = - 15 \<and> peak_bytes_used (m_stats st') = 1"
proof -
  define h0 where "h0 = store64 acct_heap 4096 32"
  define h1 where "h1 = store64 h0 4104 4128"
  define h2 where "h2 = store64 (store64 h1 4096 1024) 4104 0"
  define st1 where "st1 = st\<lparr>fl_heap := h0\<rparr>"
  define st2 where "st2 = st1\<lparr>fl_heap := h1, fl_free_list := 4096\<rparr>"
  define st3 where "st3 = st2\<lparr>fl_heap := h2\<rparr>"
  define st4 where "st4 = record_deallocation 16 0 st3"
  have owns: "FreeListAllocator_owns st 4112"
    by (simp add: FreeListAllocator_owns_def assms)
  have ins: "insert_free_block 4096 st1 = Some st2"
    by (simp add: insert_free_block_def st1_def st2_def assms h1_def h0_def)
  have h1_loads: "load64 h1 4096 = 32" "load64 h1 4104 = 4128" "load64 h1 4128 = 992"
    "load64 h1 4136 = 0"
    by (simp_all add: h1_def h0_def mem_simps acct_heap_loads)
  have h1a: "load64 (store64 h1 4096 1024) 4104 = 4128" "load64 (store64 h1 4096 1024) 4136 = 0"
    by (simp_all add: mem_simps h1_loads)
  have h2_loads: "load64 h2 4096 = 1024" "load64 h2 4104 = 0"
    by (simp_all add: h2_def mem_simps)
  have "coalesce_loop h1 4096 = coalesce_loop h2 4096"
    by (subst coalesce_loop.simps) (simp add: h1_loads h1a h2_def Let_def)
  also have "\<dots> = Some h2"
    by (subst coalesce_loop.simps) (simp add: h2_loads)
  finally have co: "coalesce st2 = Some st3"
    by (simp add: coalesce_def st2_def st3_def)
  have st4_fields: "fl_free_list st4 = 4096" "fl_heap st4 = h2"
    "current_bytes_used (m_stats st4) = - 15" "peak_bytes_used (m_stats st4) = 1"
    by (simp_all add: st4_def st3_def st2_def st1_def record_deallocation_def Let_def assms)
  have av: "available_loop h2 4096 0 = Some 1024"
    by (subst available_loop.simps, simp add: h2_loads, subst available_loop.simps, simp)
  have lg: "largest_free_block_loop h2 4096 0 = Some 1024"
    by (subst largest_free_block_loop.simps, simp add: h2_loads,
        subst largest_free_block_loop.simps, simp)
  have fr: "update_fragmentation st4 =
      Some (st4\<lparr>m_stats := (m_stats st4)\<lparr>fragmentation_bytes := 0\<rparr>\<rparr>)"
    by (simp add: update_fragmentation_def FreeListAllocator_available_def
        largest_free_block_def st4_fields av lg)
  have "FreeListAllocator_deallocate 4112 0 st =
      Some (st4\<lparr>m_stats := (m_stats st4)\<lparr>fragmentation_bytes := 0\<rparr>\<rparr>)"
    unfolding FreeListAllocator_deallocate_def
    by (simp add: owns fl_header_size_def assms(4) acct_heap_loads Let_def
        h0_def [symmetric] st1_def [symmetric] ins co st4_def [symmetric] fr)
  then show ?thesis by (simp add: st4_fields)
qed

lemma wrap_heap_loads: "load64 wrap_heap 4096 = 0" "load64 wrap_heap 4104 = 0"
  by (simp_all add: wrap_heap_def mem_simps)

lemma fl_wrap_alloc:
  "\<exists>st. fl_wrap_a = Some (4112, st) \<and> fl_memory st = 4096 \<and> m_total_size st = 1024
     \<and> fl_free_list st = 4096 \<and> fl_heap st = wrap_heap"
proof -
  define t where "t = take_block 4096 0 0 fl_fresh"
  define s1 where "s1 = record_allocation 4112 (- 16) 16 0 t"
  have ts: "align_size 0 16 = 0"
    by (simp add: align_size_def)
  have find: "find_block fl_fresh 0 = Some (4096, 0)"
    by (simp add: find_block_def fl_fresh_eval(1-6) fl_fresh_loads find_best_fit.simps)
  have t_fields: "fl_memory t = 4096" "m_total_size t = 1024" "fl_free_list t = 4096"
    "fl_heap t = wrap_heap"
    by (simp_all add: t_def take_block_def fl_fresh_eval fl_consts mem_simps wrap_heap_def Let_def)
  have s1_fields: "fl_memory s1 = 4096" "m_total_size s1 = 1024" "fl_free_list s1 = 4096"
    "fl_heap s1 = wrap_heap"
    by (simp_all add: s1_def t_fields)
  have av: "available_loop wrap_heap 4096 0 = Some 0"
    by (subst available_loop.simps, simp add: wrap_heap_loads, subst available_loop.simps, simp)
  have lg: "largest_free_block_loop wrap_heap 4096 0 = Some 0"
    by (subst largest_free_block_loop.simps, simp add: wrap_heap_loads,
        subst largest_free_block_loop.simps, simp)
  have fr: "update_fragmentation s1 =
      Some (s1\<lparr>m_stats := (m_stats s1)\<lparr>fragmentation_bytes := 0\<rparr>\<rparr>)"
    by (simp add: update_fragmentation_def FreeListAllocator_available_def
        largest_free_block_def s1_fields av lg)
  have eq: "fl_wrap_a = Some (4112, s1\<lparr>m_stats := (m_stats s1)\<lparr>fragmentation_bytes := 0\<rparr>\<rparr>)"
    unfolding fl_wrap_a_def FreeListAllocator_allocate_def
    by (simp add: ts fl_fresh_eval(1) find fl_header_size_def Let_def
        t_def [symmetric] s1_def [symmetric] fr)
  show ?thesis
    unfolding eq
    by (rule exI [of _ "s1\<lparr>m_stats := (m_stats s1)\<lparr>fragmentation_bytes := 0\<rparr>\<rparr>"])
       (simp add: s1_fields)
qed

lemma fl_wrap_dealloc:
  assumes "fl_memory st = 4096" and "m_total_size st = 1024" and "fl_free_list st = 4096"
    and "fl_heap st = wrap_heap"
  shows "FreeListAllocator_deallocate 4112 0 st = None"
proof -
  define h0 where "h0 = store64 wrap_heap 4096 0"
  define h1 where "h1 = store64 (store64 h0 4104 0) 4104 4096"
  define st1 where "st1 = st\<lparr>fl_heap := h0\<rparr>"
  define st2 where "st2 = st1\<lparr>fl_heap := h1\<rparr>"
  have owns: "FreeListAllocator_owns st 4112"
    by (simp add: FreeListAllocator_owns_def assms)
  have h0_loads: "load64 h0 4096 = 0" "load64 h0 4104 = 0"
    by (simp_all add: h0_def mem_simps wrap_heap_loads)
  have pos: "insert_position h0 4096 4096 = Some 4096"
    by (subst insert_position.simps) (simp add: h0_loads)
  have ins: "insert_free_block 4096 st1 = Some st2"
    by (simp add: insert_free_block_def st1_def st2_def assms pos h0_loads h1_def)
  have "self_linked h1 4096"
    by (simp add: self_linked_def h1_def mem_simps h0_loads)
  then have "coalesce_loop h1 4096 = None" by (rule coalesce_loop_self_linked)
  then have co: "coalesce st2 = None"
    by (simp add: coalesce_def st2_def st1_def assms)
  show ?thesis
    unfolding FreeListAllocator_deallocate_def
    by (simp add: owns fl_header_size_def assms(4) wrap_heap_loads Let_def
        h0_def [symmetric] st1_def [symmetric] ins co)
qed

section \<open>Alignment of the returned address\<close>


















section \<open>Lemmas on the statistics\<close>






















section \<open>Properties\<close>





text \<open>
  C6. For the stack variant, \<open>deallocate(p)\<close> on a non-null owned address whose implied end
  offset \<open>p - backing + header.size\<close> differs from \<open>current_offset\<close> returns without
  changing anything: offsets, backing memory, statistics and history are all as before.
\<close>

theorem stack_out_of_order_deallocate_noop:
  assumes "p \<noteq> 0"
    and "StackAllocator_owns st p"
    and "p - stk_memory st + load64 (stk_heap st) (p - stk_header_size) \<noteq> m_current_offset st"
  shows "StackAllocator_deallocate p time_ns st = st"
  using assms by (simp add: StackAllocator_deallocate_def Let_def)

text \<open>
  The instance of scenario S2: after \<open>allocate(100, 8) = p1\<close> and \<open>allocate(200, 8)\<close> on a
  stack of 1024 bytes, \<open>deallocate(p1)\<close> changes nothing.
\<close>

theorem stack_out_of_order_deallocate_noop_witness:
  "fst stack_two_a1 \<noteq> 0
   \<and> StackAllocator_owns (snd stack_two_a2) (fst stack_two_a1)
   \<and> fst stack_two_a1 - stk_memory (snd stack_two_a2)
       + load64 (stk_heap (snd stack_two_a2)) (fst stack_two_a1 - stk_header_size)
       \<noteq> m_current_offset (snd stack_two_a2)
   \<and> StackAllocator_deallocate (fst stack_two_a1) 0 (snd stack_two_a2) = snd stack_two_a2"
proof -
  have h1: "fst stack_two_a1 \<noteq> 0"
    by (simp add: stack_two_a1_eval)
  have h2: "StackAllocator_owns (snd stack_two_a2) (fst stack_two_a1)"
    by (simp add: StackAllocator_owns_def stack_two_a1_eval stack_two_a2_eval)
  have h3: "fst stack_two_a1 - stk_memory (snd stack_two_a2)
       + load64 (stk_heap (snd stack_two_a2)) (fst stack_two_a1 - stk_header_size)
       \<noteq> m_current_offset (snd stack_two_a2)"
    by (simp add: stack_two_a1_eval stack_two_a2_eval stk_header_size_def mem_simps)
  from h1 h2 h3 stack_out_of_order_deallocate_noop [OF h1 h2 h3, of 0]
  show ?thesis by simp
qed

text \<open>
  C5. On a freshly constructed stack of 1024 bytes, \<open>allocate(2^64 - 20, 8)\<close> passes the
  space check because \<open>adjustment + sizeof(AllocationHeader) + size\<close> wraps to 4, and
  returns a non-null address with \<open>current_offset = 4\<close>. The header of \<open>allocate(8, 1)\<close>
  is then written at offset 4, over the upper half of the first header's size. After
  \<open>deallocate(p2)\<close> and \<open>deallocate(p1)\<close> the second call finds a wrong size, takes the
  allocation for out of order and returns: \<open>current_offset\<close> is 4, not 0.
\<close>

theorem stack_lifo_overflow:
  "fst lifo_a1 \<noteq> 0 \<and> fst lifo_a2 \<noteq> 0
   \<and> m_current_offset lifo_d1 = 4 \<and> m_previous_offset lifo_d1 = 0"
  by (simp add: lifo_a1_eval lifo_a2_eval lifo_d1_eval)

text \<open>
  C7. \<open>record_deallocation\<close> updates the counters only; no code path writes
  \<open>is_active\<close> after \<open>record_allocation\<close> has set it. After \<open>allocate(8, 8)\<close> and the
  deallocation of its result on a stack of 1024 bytes, the deallocation is counted, and
  the one history entry is still marked active.
\<close>

theorem history_entry_stays_active:
  "fst history_a \<noteq> 0
   \<and> total_deallocations (m_stats history_d) = 1
   \<and> current_allocations (m_stats history_d) = 0
   \<and> m_allocation_history history_d =
       [\<lparr>address = fst history_a, info_size = 8, alignment = 8, timestamp = 0,
         is_active = True\<rparr>]"
  by (simp add: history_d_def history_a_eval mem_simps stack_defs)

text \<open>
  C2. \<open>PoolAllocator::allocate\<close> has no test for \<open>size == 0\<close>. On a pool of four 64-byte
  blocks \<open>allocate(0, 16)\<close> returns the first block, not null, and counts an allocation.
\<close>

theorem pool_allocate_zero_size:
  "fst pool_zero = 4096
   \<and> m_allocated_blocks (snd pool_zero) = 1
   \<and> total_allocations (m_stats (snd pool_zero)) = 1
   \<and> current_bytes_used (m_stats (snd pool_zero)) = 64"
  by (simp add: pool_zero_def PoolAllocator_allocate_def pool_init_eval record_allocation_def
      AllocationStats_init_def Let_def)

text \<open>
  C8. For every variant and every state reachable from a constructed allocator, a second
  \<open>reset()\<close> changes nothing, and \<open>available()\<close> after a reset is what it was right
  after construction.
\<close>

theorem reset_idempotent:
  assumes "constructed c" and "reachable c st"
  shows "reset (reset st) = reset st \<and> available (reset st) = available c"
proof -
  have cfg: "config st = config c" by (rule reachable_config [OF assms(2)])
  have inv: "null_backing_inv st"
    by (rule reachable_null_backing [OF assms(2) constructed_null_backing [OF assms(1)]])
  have "available (reset st) = available c"
    unfolding available_reset [OF inv] available_constructed [OF assms(1)]
    using cfg by (cases st; cases c) simp_all
  then show ?thesis by (simp add: reset_idem)
qed

text \<open>The instance: a stack of 1024 bytes after \<open>allocate(100, 8)\<close> and \<open>allocate(200, 8)\<close>.\<close>

theorem reset_idempotent_witness:
  "constructed (Stack (StackAllocator_init 1024 16 4096 zero_memory))
   \<and> reachable (Stack (StackAllocator_init 1024 16 4096 zero_memory)) (Stack (snd stack_two_a2))
   \<and> reset (reset (Stack (snd stack_two_a2))) = reset (Stack (snd stack_two_a2))
   \<and> available (reset (Stack (snd stack_two_a2)))
       = available (Stack (StackAllocator_init 1024 16 4096 zero_memory))"
proof -
  let ?c = "Stack (StackAllocator_init 1024 16 4096 zero_memory)"
  have c: "constructed ?c" by (rule constructed.intros)
  have a1: "allocate 100 8 0 0 ?c = Some (fst stack_two_a1, Stack (snd stack_two_a1))"
    by (simp add: stack_two_a1_def split: prod.splits)
  have a2: "allocate 200 8 0 0 (Stack (snd stack_two_a1))
      = Some (fst stack_two_a2, Stack (snd stack_two_a2))"
    by (simp add: stack_two_a2_def split: prod.splits)
  have r: "reachable ?c (Stack (snd stack_two_a2))"
    by (rule reach_allocate [OF reach_allocate [OF reach_init a1] a2])
  from c r reset_idempotent [OF c r] show ?thesis by simp
qed

text \<open>
  C10. For the baseline variant, \<open>reset()\<close>, which the destructor calls, passes every
  tracked pointer to the overload of \<open>::operator delete\<close> that matches its recorded
  alignment (the aligned one above \<open>alignof(std::max_align_t) = 16\<close>, the plain one
  otherwise) and to nothing else, and clears the tracking map, the statistics and the
  history: afterwards \<open>owns(p)\<close> is false for every \<open>p\<close> and \<open>stats()\<close> is the all-zero
  record, whatever the caller had not returned.
\<close>

theorem standard_reset_releases_all:
  "StandardAllocator_dtor st = StandardAllocator_reset st
   \<and> \<not> StandardAllocator_owns (StandardAllocator_reset st) p
   \<and> m_allocations (StandardAllocator_reset st) = []
   \<and> m_stats (StandardAllocator_reset st) =
       \<lparr>total_allocations = 0, total_deallocations = 0, current_allocations = 0,
        total_bytes_allocated = 0, current_bytes_used = 0, peak_bytes_used = 0,
        fragmentation_bytes = 0, avg_allocation_time_ns = 0, avg_dealloc_time_ns = 0\<rparr>
   \<and> m_allocation_history (StandardAllocator_reset st) = []
   \<and> os_deleted (StandardAllocator_reset st) =
       os_deleted st
       @ map (\<lambda>(q, sz, al). if al > 16 then DeleteAligned q al else Delete q) (m_allocations st)
   \<and> (\<forall>q sz al. map_of (m_allocations st) q = Some (sz, al) \<longrightarrow>
         (if al > 16 then DeleteAligned q al else Delete q)
           \<in> set (os_deleted (StandardAllocator_reset st)))"
proof -
  have log: "os_deleted (StandardAllocator_reset st) =
      os_deleted st
      @ map (\<lambda>(q, sz, al). if al > 16 then DeleteAligned q al else Delete q) (m_allocations st)"
    by (simp add: StandardAllocator_reset_def operator_delete_def max_align_def
        case_prod_beta)
  have released: "(if al > 16 then DeleteAligned q al else Delete q)
      \<in> set (os_deleted (StandardAllocator_reset st))"
    if "map_of (m_allocations st) q = Some (sz, al)" for q sz al
  proof -
    from that have "(q, sz, al) \<in> set (m_allocations st)" by (rule map_of_SomeD)
    then have "(\<lambda>(q, sz, al). if al > 16 then DeleteAligned q al else Delete q) (q, sz, al)
        \<in> set (map (\<lambda>(q, sz, al). if al > 16 then DeleteAligned q al else Delete q)
                 (m_allocations st))"
      by (simp only: set_map) (rule imageI)
    then show ?thesis
      unfolding log by simp
  qed
  have rest: "StandardAllocator_dtor st = StandardAllocator_reset st"
    "\<not> StandardAllocator_owns (StandardAllocator_reset st) p"
    "m_allocations (StandardAllocator_reset st) = []"
    "m_stats (StandardAllocator_reset st) =
       \<lparr>total_allocations = 0, total_deallocations = 0, current_allocations = 0,
        total_bytes_allocated = 0, current_bytes_used = 0, peak_bytes_used = 0,
        fragmentation_bytes = 0, avg_allocation_time_ns = 0, avg_dealloc_time_ns = 0\<rparr>"
    "m_allocation_history (StandardAllocator_reset st) = []"
    by (simp_all add: StandardAllocator_dtor_def StandardAllocator_reset_def
        StandardAllocator_owns_def AllocationStats_init_def)
  from rest log released show ?thesis by blast
qed

text \<open>
  The instance: two outstanding allocations, 128 bytes with alignment 16 at 8192 and 256
  bytes with alignment 64 at 12288. The reset releases the first with the plain overload
  and the second with the aligned one.
\<close>

theorem standard_reset_releases_all_witness:
  "map_of (m_allocations (snd standard_two)) 8192 = Some (128, 16)
   \<and> map_of (m_allocations (snd standard_two)) 12288 = Some (256, 64)
   \<and> StandardAllocator_owns (snd standard_two) 12288
   \<and> \<not> StandardAllocator_owns (StandardAllocator_reset (snd standard_two)) 12288
   \<and> os_deleted (StandardAllocator_reset (snd standard_two)) = [Delete 8192, DeleteAligned 12288 64]
   \<and> Delete 8192 \<in> set (os_deleted (StandardAllocator_reset (snd standard_two)))
   \<and> DeleteAligned 12288 64 \<in> set (os_deleted (StandardAllocator_reset (snd standard_two)))"
proof -
  have tracked: "m_allocations (snd standard_two) = [(8192, 128, 16), (12288, 256, 64)]"
    and log: "os_deleted (snd standard_two) = []"
    by (simp_all add: standard_two_def standard_one_def StandardAllocator_allocate_def
        StandardAllocator_init_def is_power_of_two_def record_allocation_def Let_def)
  have m1: "map_of (m_allocations (snd standard_two)) 8192 = Some (128, 16)"
    and m2: "map_of (m_allocations (snd standard_two)) 12288 = Some (256, 64)"
    by (simp_all add: tracked)
  have o: "StandardAllocator_owns (snd standard_two) 12288"
    by (simp add: StandardAllocator_owns_def m2)
  note inst = standard_reset_releases_all [of "snd standard_two" 12288]
  from inst have no: "\<not> StandardAllocator_owns (StandardAllocator_reset (snd standard_two)) 12288"
    by blast
  from inst have "os_deleted (StandardAllocator_reset (snd standard_two)) =
      os_deleted (snd standard_two)
      @ map (\<lambda>(q, sz, al). if al > 16 then DeleteAligned q al else Delete q)
          (m_allocations (snd standard_two))"
    by blast
  then have l: "os_deleted (StandardAllocator_reset (snd standard_two))
      = [Delete 8192, DeleteAligned 12288 64]"
    by (simp add: tracked log)
  from inst m1 have d1: "(if (16 :: size_t) > 16 then DeleteAligned 8192 16 else Delete 8192)
      \<in> set (os_deleted (StandardAllocator_reset (snd standard_two)))"
    by blast
  from inst m2 have d2: "(if (64 :: size_t) > 16 then DeleteAligned 12288 64 else Delete 12288)
      \<in> set (os_deleted (StandardAllocator_reset (snd standard_two)))"
    by blast
  from d1 have d1': "Delete 8192 \<in> set (os_deleted (StandardAllocator_reset (snd standard_two)))"
    by simp
  from d2 have d2': "DeleteAligned 12288 64
      \<in> set (os_deleted (StandardAllocator_reset (snd standard_two)))"
    by simp
  from m1 m2 o no l d1' d2' show ?thesis by blast
qed

text \<open>
  C3. On a free-list allocator of 1024 bytes, \<open>allocate(1, 16)\<close> records the requested
  size, 1 byte, but \<open>deallocate\<close> records \<open>header.size - sizeof(AllocationHeader)\<close>,
  the padded block of 32 bytes less the header, 16 bytes. \<open>current_bytes_used\<close> goes
  from 1 to \<open>1 - 16\<close>, which wraps to \<open>2^64 - 15\<close>, above \<open>peak_bytes_used = 1\<close>.
\<close>

theorem free_list_bytes_used_underflow:
  "map_option fst fl_acct_a = Some 4112
   \<and> (\<exists>st. fl_acct_d = Some st
         \<and> current_bytes_used (m_stats st) = 18446744073709551601
         \<and> peak_bytes_used (m_stats st) = 1
         \<and> peak_bytes_used (m_stats st) < current_bytes_used (m_stats st))"
proof -
  from fl_acct_alloc obtain st where st: "fl_acct_a = Some (4112, st)" "fl_memory st = 4096"
    "m_total_size st = 1024" "fl_free_list st = 4128" "fl_heap st = acct_heap"
    "current_bytes_used (m_stats st) = 1" "peak_bytes_used (m_stats st) = 1"
    by blast
  from fl_acct_dealloc [OF st(2-7)] obtain st' where
    st': "FreeListAllocator_deallocate 4112 0 st = Some st'"
    "current_bytes_used (m_stats st') = - 15" "peak_bytes_used (m_stats st') = 1"
    by blast
  have d: "fl_acct_d = Some st'"
    unfolding fl_acct_d_def st(1) using st'(1) by simp
  have c: "current_bytes_used (m_stats st') = 18446744073709551601"
    unfolding st'(2) by simp
  have lt: "peak_bytes_used (m_stats st') < current_bytes_used (m_stats st')"
    unfolding c st'(3) by simp
  have a: "map_option fst fl_acct_a = Some 4112"
    unfolding st(1) by simp
  from a d c st'(3) lt show ?thesis by blast
qed

text \<open>
  C4. On a free-list allocator of 1024 bytes, \<open>allocate(2^64 - 16, 16)\<close> computes
  \<open>size + sizeof(AllocationHeader)\<close>, which wraps to 0. Every free block fits a request
  of 0 bytes; the block is split at offset 0, and the allocation header, written last,
  sets the size of the only free node to 0. The call returns a non-null address.
  Deallocating it inserts the node at its own address behind itself, so that its
  \<open>next\<close> pointer is the node, and \<open>coalesce\<close> merges the node with itself for ever: the
  call does not return, and no state with one node of 1024 bytes is reached.
\<close>

theorem free_list_wrap_never_coalesces:
  "map_option fst fl_wrap_a = Some 4112 \<and> fl_wrap_d = None"
proof -
  from fl_wrap_alloc obtain st where st: "fl_wrap_a = Some (4112, st)" "fl_memory st = 4096"
    "m_total_size st = 1024" "fl_free_list st = 4096" "fl_heap st = wrap_heap"
    by blast
  have "FreeListAllocator_deallocate 4112 0 st = None"
    by (rule fl_wrap_dealloc [OF st(2-5)])
  then show ?thesis
    unfolding fl_wrap_d_def st(1) by simp
qed



end
